theory Spec2Isabelle
  imports Main "HOL-Library.AList"
begin

section \<open>Python values, exceptions and string helpers\<close>

text \<open>
  The module \<^verbatim>\<open>AviaxMusic/platforms/Youtube.py\<close> handles dynamically typed data:
  the search index, the extractor and the proxy mirrors hand back dictionaries, lists,
  strings, numbers and \<^verbatim>\<open>None\<close>. These are the values of \<open>pyval\<close>; a dictionary is an
  association list with string keys, as all dictionaries of the module have. Floating
  point numbers are left out. A string is a list of characters of an 8-bit alphabet;
  the module treats every character other than the few it names (\<^verbatim>\<open>&\<close>, \<^verbatim>\<open>?\<close>, the
  characters of its pattern) alike.

  The operations \<^verbatim>\<open>details\<close>, \<^verbatim>\<open>exists\<close>, \<^verbatim>\<open>video\<close>, \<^verbatim>\<open>playlist\<close> and \<^verbatim>\<open>download\<close> are
  modelled, with \<^verbatim>\<open>_get_ydl_opts\<close> and \<^verbatim>\<open>_get_from_invidious\<close>. The operation \<^verbatim>\<open>url\<close>,
  which reads a message of the messaging platform, is not. Of \<^verbatim>\<open>_rate_limit\<close>, which
  waits in real time, the model keeps the fact that it is called: the event
  \<open>Throttle\<close>. Logging is left out throughout.
\<close>

datatype pyval =
    PNone
  | PBool bool
  | PInt int
  | PStr string
  | PList "pyval list"
  | PDict "(string \<times> pyval) list"

text \<open>
  Exceptions are values. Every exception of the model is an instance of Python's
  \<^verbatim>\<open>Exception\<close>; the class is kept as far as the module tells classes apart
  (\<^verbatim>\<open>except yt_dlp.utils.ExtractorError\<close> catches that class and its subclasses, here
  \<open>ExtractorError\<close>). \<open>LibraryError\<close> is any other exception raised inside a collaborator.
  The wording of the interpreter's own messages differs between Python versions; the
  messages below are those of CPython 3.11.
\<close>

datatype exn_class =
    ExtractorError
  | KeyError
  | IndexError
  | TypeError
  | AttributeError
  | NameError
  | PlainException
  | LibraryError

datatype exn = Exn exn_class string

fun exn_cls :: "exn \<Rightarrow> exn_class" where
  "exn_cls (Exn c m) = c"

text \<open>\<^verbatim>\<open>str(e)\<close>\<close>

fun exn_str :: "exn \<Rightarrow> string" where
  "exn_str (Exn c m) = m"

text \<open>Sequencing of steps that may raise: the first exception ends the block.\<close>

definition and_then :: "exn + 'a \<Rightarrow> ('a \<Rightarrow> exn + 'b) \<Rightarrow> exn + 'b" where
  "and_then m f = (case m of Inl e \<Rightarrow> Inl e | Inr x \<Rightarrow> f x)"

text \<open>Truth value of an object, as \<^verbatim>\<open>if x:\<close> and \<^verbatim>\<open>not x\<close> test it.\<close>

fun truthy :: "pyval \<Rightarrow> bool" where
  "truthy PNone = False"
| "truthy (PBool b) = b"
| "truthy (PInt i) = (i \<noteq> 0)"
| "truthy (PStr s) = (s \<noteq> [])"
| "truthy (PList xs) = (xs \<noteq> [])"
| "truthy (PDict kvs) = (kvs \<noteq> [])"

fun type_name :: "pyval \<Rightarrow> string" where
  "type_name PNone = ''NoneType''"
| "type_name (PBool b) = ''bool''"
| "type_name (PInt i) = ''int''"
| "type_name (PStr s) = ''str''"
| "type_name (PList xs) = ''list''"
| "type_name (PDict kvs) = ''dict''"

text \<open>A name or key in single quotes, as the interpreter's messages show it.\<close>

definition quoted :: "string \<Rightarrow> string" where
  "quoted s = CHR 0x27 # s @ [CHR 0x27]"

text \<open>\<^verbatim>\<open>x[k]\<close> for a string literal \<open>k\<close>.\<close>

fun getitem_key :: "pyval \<Rightarrow> string \<Rightarrow> exn + pyval" where
  "getitem_key (PDict kvs) k =
     (case map_of kvs k of
        Some v \<Rightarrow> Inr v
      | None \<Rightarrow> Inl (Exn KeyError (quoted k)))"
| "getitem_key (PList xs) k =
     Inl (Exn TypeError ''list indices must be integers or slices, not str'')"
| "getitem_key (PStr s) k =
     Inl (Exn TypeError (''string indices must be integers, not '' @ quoted ''str''))"
| "getitem_key v k =
     Inl (Exn TypeError (quoted (type_name v) @ '' object is not subscriptable''))"

text \<open>\<^verbatim>\<open>x[0]\<close>\<close>

fun getitem_0 :: "pyval \<Rightarrow> exn + pyval" where
  "getitem_0 (PList xs) =
     (case xs of
        [] \<Rightarrow> Inl (Exn IndexError ''list index out of range'')
      | x # _ \<Rightarrow> Inr x)"
| "getitem_0 (PStr s) =
     (case s of
        [] \<Rightarrow> Inl (Exn IndexError ''string index out of range'')
      | c # _ \<Rightarrow> Inr (PStr [c]))"
| "getitem_0 (PDict kvs) = Inl (Exn KeyError ''0'')"
| "getitem_0 v =
     Inl (Exn TypeError (quoted (type_name v) @ '' object is not subscriptable''))"

text \<open>\<^verbatim>\<open>x.get(k)\<close> and \<^verbatim>\<open>x.get(k, default)\<close>: only a dictionary has the method.\<close>

fun dict_get :: "pyval \<Rightarrow> string \<Rightarrow> pyval \<Rightarrow> exn + pyval" where
  "dict_get (PDict kvs) k dflt =
     (case map_of kvs k of Some v \<Rightarrow> Inr v | None \<Rightarrow> Inr dflt)"
| "dict_get v k dflt =
     Inl (Exn AttributeError
       (quoted (type_name v) @ '' object has no attribute '' @ quoted ''get''))"

text \<open>\<^verbatim>\<open>k in x\<close> for a string literal \<open>k\<close> and a dictionary, list or string \<open>x\<close>.\<close>

fun starts_with :: "string \<Rightarrow> string \<Rightarrow> bool" where
  "starts_with [] s = True"
| "starts_with (p # ps) [] = False"
| "starts_with (p # ps) (c # cs) = (p = c \<and> starts_with ps cs)"

fun str_contains :: "string \<Rightarrow> string \<Rightarrow> bool" where
  "str_contains sub [] = (sub = [])"
| "str_contains sub (c # cs) = (starts_with sub (c # cs) \<or> str_contains sub cs)"

fun ends_with :: "string \<Rightarrow> string \<Rightarrow> bool" where
  "ends_with suf s = starts_with (rev suf) (rev s)"

fun key_in :: "string \<Rightarrow> pyval \<Rightarrow> exn + bool" where
  "key_in k (PDict kvs) = Inr (map_of kvs k \<noteq> None)"
| "key_in k (PList xs) = Inr (PStr k \<in> set xs)"
| "key_in k (PStr s) = Inr (str_contains k s)"
| "key_in k v =
     Inl (Exn TypeError (''argument of type '' @ quoted (type_name v) @ '' is not iterable''))"

text \<open>\<^verbatim>\<open>s.split(c)\<close> for a one-character separator; the result is never empty.\<close>

fun split_on :: "char \<Rightarrow> string \<Rightarrow> string list" where
  "split_on c [] = [[]]"
| "split_on c (x # xs) =
     (if x = c then [] # split_on c xs
      else (case split_on c xs of
              [] \<Rightarrow> [[x]]
            | h # t \<Rightarrow> (x # h) # t))"

text \<open>\<^verbatim>\<open>x.split(c)[0]\<close>: only a string has the method.\<close>

fun split_first :: "char \<Rightarrow> pyval \<Rightarrow> exn + pyval" where
  "split_first c (PStr s) =
     (case split_on c s of
        [] \<Rightarrow> Inl (Exn IndexError ''list index out of range'')
      | h # _ \<Rightarrow> Inr (PStr h))"
| "split_first c v =
     Inl (Exn AttributeError
       (quoted (type_name v) @ '' object has no attribute '' @ quoted ''split''))"

text \<open>Iteration \<^verbatim>\<open>for x in v\<close>: the items in order, or the \<^verbatim>\<open>TypeError\<close> of a scalar.\<close>

fun py_iter :: "pyval \<Rightarrow> exn + pyval list" where
  "py_iter (PList xs) = Inr xs"
| "py_iter (PDict kvs) = Inr (map (\<lambda>kv. PStr (fst kv)) kvs)"
| "py_iter (PStr s) = Inr (map (\<lambda>c. PStr [c]) s)"
| "py_iter v =
     Inl (Exn TypeError (quoted (type_name v) @ '' object is not iterable''))"

text \<open>Decimal digits of an integer, for \<^verbatim>\<open>str(n)\<close>.\<close>

fun digits_of :: "nat \<Rightarrow> string" where
  "digits_of n =
     (if n < 10 then [char_of (48 + n)]
      else digits_of (n div 10) @ [char_of (48 + n mod 10)])"

declare digits_of.simps [simp del]

text \<open>
  \<^verbatim>\<open>str(v)\<close>, which is also what an f-string inserts. The text of a list or of a
  dictionary is the interpreter's \<^verbatim>\<open>repr\<close>; the module never looks into it, and it is
  a parameter \<open>repr\<close> here.
\<close>

fun py_str :: "(pyval \<Rightarrow> string) \<Rightarrow> pyval \<Rightarrow> string" where
  "py_str repr PNone = ''None''"
| "py_str repr (PBool b) = (if b then ''True'' else ''False'')"
| "py_str repr (PInt i) =
     (if i < 0 then CHR ''-'' # digits_of (nat (- i)) else digits_of (nat i))"
| "py_str repr (PStr s) = s"
| "py_str repr v = repr v"

fun is_list :: "pyval \<Rightarrow> bool" where
  "is_list (PList xs) = True"
| "is_list v = False"

section \<open>The collaborators of the module\<close>

text \<open>
  The module owns no data source: it calls the search index
  (\<^verbatim>\<open>VideosSearch(link, limit=1).next()\<close>), the extractor
  (\<^verbatim>\<open>YoutubeDL(opts).extract_info(link, download=False)\<close>, \<^verbatim>\<open>prepare_filename\<close>,
  \<^verbatim>\<open>download\<close>), the proxy mirrors over HTTP, the file system and the random number
  generator. Each is a field of the record \<open>env\<close>: what the collaborator answers, or the
  exception it raises. A theorem about an operation holds for every \<open>env\<close>, that is,
  whatever the collaborators do.
\<close>

type_synonym ydl_opts = "(string \<times> pyval) list"

text \<open>
  One HTTP exchange with a mirror: the request fails (connection error, timeout), or a
  response arrives with its status and with what \<^verbatim>\<open>await resp.json()\<close> gives.
\<close>

datatype http_reply =
    RequestFailed exn
  | Response int "exn + pyval"

text \<open>The files that \<^verbatim>\<open>os.path.exists\<close> reports.\<close>

type_synonym files = "string set"

record env =
  search_next :: "string \<Rightarrow> exn + pyval"
  extract_info :: "ydl_opts \<Rightarrow> string \<Rightarrow> exn + pyval"
  session_get :: "string \<Rightarrow> http_reply"
  quote :: "string \<Rightarrow> string"
  random_choice :: "string list \<Rightarrow> string"
  py_repr :: "pyval \<Rightarrow> string"
  prepare_filename :: "ydl_opts \<Rightarrow> pyval \<Rightarrow> exn + string"
  ydl_download :: "ydl_opts \<Rightarrow> string \<Rightarrow> files \<Rightarrow> exn + files"
  makedirs :: "string \<Rightarrow> files \<Rightarrow> exn + files"
  os_rename :: "string \<Rightarrow> string \<Rightarrow> files \<Rightarrow> exn + files"
  splitext :: "string \<Rightarrow> string \<times> string"

text \<open>
  What an operation does to the outside, in order. \<open>Throttle\<close> is one call of
  \<^verbatim>\<open>_rate_limit\<close>; \<open>SearchMirror base query\<close> is the request
  \<^verbatim>\<open>GET {base}/api/v1/search?q={quote(query)}\<close>.
\<close>

datatype call =
    Throttle
  | VideosSearch string
  | ExtractInfo ydl_opts string
  | SearchMirror string string
  | MakeDirs string
  | PathExists string
  | YdlDownload ydl_opts string
  | Rename string string

section \<open>The attributes set by \<^verbatim>\<open>__init__\<close>\<close>

definition base_url :: string where
  "base_url = ''https://www.youtube.com/watch?v=''"

definition playlist_base :: string where
  "playlist_base = ''https://youtube.com/playlist?list=''"

definition user_agents :: "string list" where
  "user_agents =
     [''Mozilla/5.0 (Windows NT 10.0; Win64; x64) AppleWebKit/537.36 (KHTML, like Gecko) Chrome/120.0.0.0 Safari/537.36'',
      ''Mozilla/5.0 (Macintosh; Intel Mac OS X 10_15_7) AppleWebKit/605.1.15 (KHTML, like Gecko) Version/16.3 Safari/605.1.15'',
      ''Mozilla/5.0 (iPhone; CPU iPhone OS 16_3 like Mac OS X) AppleWebKit/605.1.15 (KHTML, like Gecko) Version/16.3 Mobile/15E148 Safari/604.1'']"

definition invidious_instances :: "string list" where
  "invidious_instances =
     [''https://yewtu.be'',
      ''https://inv.odyssey346.dev'',
      ''https://invidious.flokinet.to'',
      ''https://vid.puffyan.us'',
      ''https://inv.tux.pizza'']"

section \<open>\<^verbatim>\<open>_get_ydl_opts\<close>\<close>

text \<open>
  \<^verbatim>\<open>opts[k] = v\<close> is \<open>AList.update\<close>: the value of an existing key is replaced, a new key
  goes to the end. The entry \<^verbatim>\<open>'logger'\<close>, whose value is the module's logging object,
  is not a data value and is left out.
\<close>

definition get_ydl_opts :: "env \<Rightarrow> bool \<Rightarrow> pyval \<Rightarrow> ydl_opts" where
  "get_ydl_opts env audio_only format_id =
     (let opts =
            [(''quiet'', PBool True),
             (''no_warnings'', PBool True),
             (''geo_bypass'', PBool True),
             (''force_ipv4'', PBool True),
             (''socket_timeout'', PInt 30),
             (''retries'', PInt 3),
             (''user_agent'', PStr (random_choice env user_agents)),
             (''referer'', PStr ''https://www.youtube.com/''),
             (''noplaylist'', PBool True),
             (''extract_flat'', PBool False),
             (''nocheckcertificate'', PBool True),
             (''ignoreerrors'', PBool True),
             (''ratelimit'', PInt 1048576)]
      in if truthy format_id then AList.update ''format'' format_id opts
         else if audio_only then
           AList.update ''postprocessors''
             (PList [PDict [(''key'', PStr ''FFmpegExtractAudio''),
                            (''preferredcodec'', PStr ''mp3''),
                            (''preferredquality'', PStr ''192'')]])
             (AList.update ''format'' (PStr ''bestaudio/best'') opts)
         else AList.update ''format''
                (PStr ''bestvideo[height<=720]+bestaudio/best[height<=720]'') opts)"

section \<open>\<^verbatim>\<open>_get_from_invidious\<close>\<close>

text \<open>\<^verbatim>\<open>next((v for v in results if v.get('type') == 'video'), None)\<close>\<close>

fun first_video :: "pyval list \<Rightarrow> exn + pyval" where
  "first_video [] = Inr PNone"
| "first_video (v # vs) =
     and_then (dict_get v ''type'' PNone)
       (\<lambda>t. if t = PStr ''video'' then Inr v else first_video vs)"

text \<open>The dictionary built from the chosen entry.\<close>

definition mirror_entry :: "env \<Rightarrow> pyval \<Rightarrow> exn + pyval" where
  "mirror_entry env video =
     and_then (dict_get video ''videoId'' PNone) (\<lambda>vid.
     and_then (dict_get video ''title'' (PStr ''Unknown Title'')) (\<lambda>title.
     and_then (dict_get video ''lengthSeconds'' (PInt 0)) (\<lambda>duration.
     and_then (dict_get video ''videoId'' PNone) (\<lambda>vid_t.
     and_then (dict_get video ''videoId'' PNone) (\<lambda>vid_u.
       Inr (PDict
         [(''id'', vid),
          (''title'', title),
          (''duration'', duration),
          (''thumbnail'',
             PStr (''https://i.ytimg.com/vi/'' @ py_str (py_repr env) vid_t @ ''/hqdefault.jpg'')),
          (''url'', PStr (base_url @ py_str (py_repr env) vid_u))]))))))"

text \<open>
  The body of the \<^verbatim>\<open>try\<close> for one mirror: \<open>Inr (Some d)\<close> is \<^verbatim>\<open>return d\<close>, \<open>Inr None\<close> is
  the end of the block without a \<^verbatim>\<open>return\<close>, \<open>Inl e\<close> an exception (which the handler
  logs).
\<close>

definition try_mirror :: "env \<Rightarrow> string \<Rightarrow> string \<Rightarrow> exn + pyval option" where
  "try_mirror env base query =
     (case session_get env (base @ ''/api/v1/search?q='' @ quote env query) of
        RequestFailed e \<Rightarrow> Inl e
      | Response status body \<Rightarrow>
          if status = 200 then
            and_then body (\<lambda>results.
              if truthy results \<and> is_list results then
                and_then (py_iter results) (\<lambda>items.
                and_then (first_video items) (\<lambda>video.
                  if truthy video then
                    and_then (mirror_entry env video) (\<lambda>d. Inr (Some d))
                  else Inr None))
              else Inr None)
          else Inr None)"

text \<open>The loop over the mirrors, with the requests it makes.\<close>

fun mirror_loop :: "env \<Rightarrow> string \<Rightarrow> string list \<Rightarrow> pyval \<times> call list" where
  "mirror_loop env query [] = (PNone, [])"
| "mirror_loop env query (base # rest) =
     (case try_mirror env base query of
        Inr (Some d) \<Rightarrow> (d, [SearchMirror base query])
      | _ \<Rightarrow>
          (let (r, calls) = mirror_loop env query rest
           in (r, SearchMirror base query # calls)))"

definition get_from_invidious :: "env \<Rightarrow> string \<Rightarrow> pyval \<times> call list" where
  "get_from_invidious env query = mirror_loop env query invidious_instances"

section \<open>Normalising the input\<close>

text \<open>
  Every operation starts with
  \<^verbatim>\<open>if videoid: link = base + link\<close> and
  \<^verbatim>\<open>if "&" in link: link = link.split("&")[0]\<close>;
  the base is \<^verbatim>\<open>self.base_url\<close> in \<^verbatim>\<open>details\<close>, \<^verbatim>\<open>video\<close> and \<^verbatim>\<open>download\<close> and
  \<^verbatim>\<open>self.playlist_base\<close> in \<^verbatim>\<open>playlist\<close>.
\<close>

definition normalize_link :: "string \<Rightarrow> pyval \<Rightarrow> string \<Rightarrow> string" where
  "normalize_link base videoid link =
     (let link1 = (if truthy videoid then base @ link else link)
      in if CHR ''&'' \<in> set link1
         then (case split_on CHR ''&'' link1 of [] \<Rightarrow> link1 | h # _ \<Rightarrow> h)
         else link1)"

section \<open>\<^verbatim>\<open>details\<close>\<close>

text \<open>
  The first \<^verbatim>\<open>try\<close> block. \<open>Inr (Some d)\<close> is \<^verbatim>\<open>return d, ""\<close> in the first round of the
  loop, \<open>Inr None\<close> a loop over no result, \<open>Inl e\<close> an exception, which the handler logs
  before the extractor is tried. The module neither defines nor imports
  \<^verbatim>\<open>time_to_seconds\<close>, so evaluating that name raises \<^verbatim>\<open>NameError\<close>.
\<close>

definition primary_lookup :: "env \<Rightarrow> string \<Rightarrow> exn + pyval option" where
  "primary_lookup env link =
     and_then (search_next env link) (\<lambda>page.
     and_then (getitem_key page ''result'') (\<lambda>rs.
     and_then (py_iter rs) (\<lambda>items.
       case items of
         [] \<Rightarrow> Inr None
       | result # _ \<Rightarrow>
           and_then (getitem_key result ''duration'') (\<lambda>duration_min.
           and_then (getitem_key result ''title'') (\<lambda>title.
           and_then
             (if py_str (py_repr env) duration_min = ''None'' then Inr (PInt 0)
              else Inl (Exn NameError
                     (''name '' @ quoted ''time_to_seconds'' @ '' is not defined'')))
             (\<lambda>duration_sec.
           and_then (getitem_key result ''thumbnails'') (\<lambda>thumbnails.
           and_then (getitem_0 thumbnails) (\<lambda>thumbnail0.
           and_then (getitem_key thumbnail0 ''url'') (\<lambda>thumbnail_url.
           and_then (split_first CHR ''?'' thumbnail_url) (\<lambda>thumbnail.
           and_then (getitem_key result ''id'') (\<lambda>vid.
           and_then (getitem_key result ''link'') (\<lambda>url.
             Inr (Some (PDict
               [(''title'', title),
                (''duration'', duration_min),
                (''duration_sec'', duration_sec),
                (''thumbnail'', thumbnail),
                (''id'', vid),
                (''url'', url)]))))))))))))))"

text \<open>The second \<^verbatim>\<open>try\<close> block, up to its \<^verbatim>\<open>return\<close>.\<close>

definition secondary_extract :: "env \<Rightarrow> string \<Rightarrow> exn + pyval" where
  "secondary_extract env link =
     and_then (extract_info env (get_ydl_opts env True PNone) link) (\<lambda>info0.
       if \<not> truthy info0 then Inl (Exn PlainException ''No info returned'')
       else
         and_then (key_in ''entries'' info0) (\<lambda>has_entries.
         and_then
           (if has_entries then
              and_then (getitem_key info0 ''entries'') (\<lambda>entries.
                if is_list entries \<and> truthy entries then getitem_0 entries
                else Inl (Exn PlainException ''No entries found''))
            else Inr info0)
           (\<lambda>info.
         and_then (dict_get info ''duration'' (PInt 0)) (\<lambda>duration.
         and_then (dict_get info ''title'' (PStr ''Unknown Title'')) (\<lambda>title.
         and_then (dict_get info ''thumbnail'' PNone) (\<lambda>thumb.
         and_then
           (if truthy thumb then Inr thumb
            else and_then (getitem_key info ''id'') (\<lambda>i.
                   Inr (PStr (''https://i.ytimg.com/vi/'' @ py_str (py_repr env) i
                               @ ''/hqdefault.jpg''))))
           (\<lambda>thumbnail.
         and_then (getitem_key info ''id'') (\<lambda>vid.
         and_then (getitem_key info ''id'') (\<lambda>vid_u.
           Inr (PDict
             [(''title'', title),
              (''duration'', duration),
              (''duration_sec'', duration),
              (''thumbnail'', thumbnail),
              (''id'', vid),
              (''url'', PStr (base_url @ py_str (py_repr env) vid_u))]))))))))))"

text \<open>The dictionary that \<^verbatim>\<open>details\<close> builds from the answer of a mirror.\<close>

definition from_fallback :: "pyval \<Rightarrow> exn + pyval" where
  "from_fallback fallback =
     and_then (getitem_key fallback ''title'') (\<lambda>title.
     and_then (getitem_key fallback ''duration'') (\<lambda>duration.
     and_then (getitem_key fallback ''duration'') (\<lambda>duration_sec.
     and_then (getitem_key fallback ''thumbnail'') (\<lambda>thumbnail.
     and_then (getitem_key fallback ''id'') (\<lambda>vid.
     and_then (getitem_key fallback ''url'') (\<lambda>url.
       Inr (PDict
         [(''title'', title),
          (''duration'', duration),
          (''duration_sec'', duration_sec),
          (''thumbnail'', thumbnail),
          (''id'', vid),
          (''url'', url)])))))))"

text \<open>
  The body of the outer \<^verbatim>\<open>try\<close>: the value returned (or the exception that reaches the
  outer handler) and the calls made. An operation returns \<open>Inr\<close> of its value; \<open>Inl e\<close>
  is an exception that leaves the operation.
\<close>

definition details_body ::
  "env \<Rightarrow> string \<Rightarrow> pyval \<Rightarrow> (exn + pyval \<times> string) \<times> call list" where
  "details_body env link0 videoid =
     (let link = normalize_link base_url videoid link0;
          opts = get_ydl_opts env True PNone
      in case primary_lookup env link of
           Inr (Some d) \<Rightarrow> (Inr (d, ''''), [Throttle, VideosSearch link])
         | _ \<Rightarrow>
           (case secondary_extract env link of
              Inr d \<Rightarrow>
                (Inr (d, ''''), [Throttle, VideosSearch link, ExtractInfo opts link])
            | Inl e \<Rightarrow>
                if exn_cls e = ExtractorError then
                  (if str_contains ''Sign in'' (exn_str e) then
                     (let (fallback, calls) = get_from_invidious env link
                      in (if truthy fallback then
                            and_then (from_fallback fallback) (\<lambda>d. Inr (d, ''''))
                          else Inr (PNone, ''Extraction failed: '' @ exn_str e),
                          [Throttle, VideosSearch link, ExtractInfo opts link] @ calls))
                   else
                     (Inr (PNone, ''Extraction failed: '' @ exn_str e),
                      [Throttle, VideosSearch link, ExtractInfo opts link]))
                else
                  (Inr (PNone, ''Error: '' @ exn_str e),
                   [Throttle, VideosSearch link, ExtractInfo opts link])))"

definition details ::
  "env \<Rightarrow> string \<Rightarrow> pyval \<Rightarrow> (exn + pyval \<times> string) \<times> call list" where
  "details env link videoid =
     (case details_body env link videoid of
        (Inl e, calls) \<Rightarrow> (Inr (PNone, ''Failed to process query: '' @ exn_str e), calls)
      | (Inr r, calls) \<Rightarrow> (Inr r, calls))"

section \<open>\<^verbatim>\<open>video\<close>\<close>

definition video_body ::
  "env \<Rightarrow> string \<Rightarrow> pyval \<Rightarrow> (exn + pyval \<times> string) \<times> call list" where
  "video_body env link0 videoid =
     (let link = normalize_link base_url videoid link0;
          opts = get_ydl_opts env False PNone
      in (and_then (extract_info env opts link) (\<lambda>info.
            and_then
              (if \<not> truthy info then Inr True
               else and_then (dict_get info ''url'' PNone) (\<lambda>u. Inr (\<not> truthy u)))
              (\<lambda>no_url.
                 if no_url then Inr (PNone, ''No stream URL available'')
                 else and_then (getitem_key info ''url'') (\<lambda>u. Inr (u, '''')))),
          [Throttle, ExtractInfo opts link]))"

definition video ::
  "env \<Rightarrow> string \<Rightarrow> pyval \<Rightarrow> (exn + pyval \<times> string) \<times> call list" where
  "video env link videoid =
     (case video_body env link videoid of
        (Inl e, calls) \<Rightarrow> (Inr (PNone, ''Error getting stream URL: '' @ exn_str e), calls)
      | (Inr r, calls) \<Rightarrow> (Inr r, calls))"

section \<open>\<^verbatim>\<open>playlist\<close>\<close>

text \<open>\<^verbatim>\<open>[entry['id'] for entry in entries if entry.get('id')]\<close>\<close>

fun entry_ids :: "pyval list \<Rightarrow> exn + pyval list" where
  "entry_ids [] = Inr []"
| "entry_ids (entry # rest) =
     and_then (dict_get entry ''id'' PNone) (\<lambda>i.
     and_then (if truthy i then and_then (getitem_key entry ''id'') (\<lambda>v. Inr [v]) else Inr [])
       (\<lambda>this.
     and_then (entry_ids rest) (\<lambda>others. Inr (this @ others))))"

definition playlist_opts :: "int \<Rightarrow> ydl_opts" where
  "playlist_opts limit =
     [(''extract_flat'', PBool True),
      (''playlistend'', PInt limit),
      (''quiet'', PBool True),
      (''no_warnings'', PBool True)]"

definition playlist_body ::
  "env \<Rightarrow> string \<Rightarrow> int \<Rightarrow> int \<Rightarrow> pyval \<Rightarrow> (exn + pyval list) \<times> call list" where
  "playlist_body env link0 limit user_id videoid =
     (let link = normalize_link playlist_base videoid link0;
          opts = playlist_opts limit
      in (and_then (extract_info env opts link) (\<lambda>info.
            and_then
              (if \<not> truthy info then Inr True
               else and_then (dict_get info ''entries'' PNone) (\<lambda>es. Inr (\<not> truthy es)))
              (\<lambda>nothing.
                 if nothing then Inr []
                 else
                   and_then (getitem_key info ''entries'') (\<lambda>entries.
                   and_then (py_iter entries) entry_ids))),
          [Throttle, ExtractInfo opts link]))"

definition playlist ::
  "env \<Rightarrow> string \<Rightarrow> int \<Rightarrow> int \<Rightarrow> pyval \<Rightarrow> (exn + pyval list) \<times> call list" where
  "playlist env link limit user_id videoid =
     (case playlist_body env link limit user_id videoid of
        (Inl e, calls) \<Rightarrow> (Inr [], calls)
      | (Inr r, calls) \<Rightarrow> (Inr r, calls))"

section \<open>\<^verbatim>\<open>download\<close>\<close>

text \<open>
  \<^verbatim>\<open>download\<close> returns a path in the two snippet modes and a pair of a path and
  \<^verbatim>\<open>True\<close> in the other two.
\<close>

datatype download_result =
    Path string
  | PathFlag string bool

text \<open>
  The two snippet modes (\<^verbatim>\<open>songvideo\<close>, \<^verbatim>\<open>songaudio\<close>): set the output template,
  download, return the path. \<open>calls\<close> are the calls made so far.
\<close>

definition snippet_download ::
  "env \<Rightarrow> ydl_opts \<Rightarrow> string \<Rightarrow> string \<Rightarrow> files \<Rightarrow> call list
     \<Rightarrow> (exn + download_result \<times> files) \<times> call list" where
  "snippet_download env opts0 out link fs calls =
     (let opts = AList.update ''outtmpl'' (PStr out) opts0
      in case ydl_download env opts link fs of
           Inl e \<Rightarrow> (Inl e, calls @ [YdlDownload opts link])
         | Inr fs' \<Rightarrow> (Inr (Path out, fs'), calls @ [YdlDownload opts link]))"

text \<open>The mode \<^verbatim>\<open>video\<close>: the file is fetched only if \<^verbatim>\<open>os.path.exists(path)\<close> is false.\<close>

definition full_video_download ::
  "env \<Rightarrow> string \<Rightarrow> files \<Rightarrow> call list
     \<Rightarrow> (exn + download_result \<times> files) \<times> call list" where
  "full_video_download env link fs calls =
     (let opts = AList.update ''outtmpl'' (PStr ''downloads/%(id)s.%(ext)s'')
                   (get_ydl_opts env False PNone)
      in case extract_info env opts link of
           Inl e \<Rightarrow> (Inl e, calls @ [ExtractInfo opts link])
         | Inr info \<Rightarrow>
           (case prepare_filename env opts info of
              Inl e \<Rightarrow> (Inl e, calls @ [ExtractInfo opts link])
            | Inr path \<Rightarrow>
                if path \<notin> fs then
                  (case ydl_download env opts link fs of
                     Inl e \<Rightarrow>
                       (Inl e,
                        calls @ [ExtractInfo opts link, PathExists path, YdlDownload opts link])
                   | Inr fs' \<Rightarrow>
                       (Inr (PathFlag path True, fs'),
                        calls @ [ExtractInfo opts link, PathExists path, YdlDownload opts link]))
                else
                  (Inr (PathFlag path True, fs),
                   calls @ [ExtractInfo opts link, PathExists path])))"

text \<open>
  The default mode: the file is fetched only if the \<^verbatim>\<open>.mp3\<close> path does not exist, and
  the raw output is then renamed to it.
\<close>

definition default_audio_download ::
  "env \<Rightarrow> string \<Rightarrow> files \<Rightarrow> call list
     \<Rightarrow> (exn + download_result \<times> files) \<times> call list" where
  "default_audio_download env link fs calls =
     (let opts = AList.update ''outtmpl'' (PStr ''downloads/%(id)s.%(ext)s'')
                   (get_ydl_opts env True PNone)
      in case extract_info env opts link of
           Inl e \<Rightarrow> (Inl e, calls @ [ExtractInfo opts link])
         | Inr info \<Rightarrow>
           (case prepare_filename env opts info of
              Inl e \<Rightarrow> (Inl e, calls @ [ExtractInfo opts link])
            | Inr path \<Rightarrow>
               (let mp3_path = fst (splitext env path) @ ''.mp3'';
                    calls1 = calls @ [ExtractInfo opts link, PathExists mp3_path]
                in if mp3_path \<notin> fs then
                     (case ydl_download env opts link fs of
                        Inl e \<Rightarrow> (Inl e, calls1 @ [YdlDownload opts link])
                      | Inr fs' \<Rightarrow>
                          if path \<in> fs' \<and> \<not> ends_with ''.mp3'' path then
                            (case os_rename env path mp3_path fs' of
                               Inl e \<Rightarrow>
                                 (Inl e,
                                  calls1 @ [YdlDownload opts link, PathExists path,
                                            Rename path mp3_path])
                             | Inr fs'' \<Rightarrow>
                                 (Inr (PathFlag mp3_path True, fs''),
                                  calls1 @ [YdlDownload opts link, PathExists path,
                                            Rename path mp3_path]))
                          else
                            (Inr (PathFlag mp3_path True, fs'),
                             calls1 @ [YdlDownload opts link, PathExists path]))
                   else (Inr (PathFlag mp3_path True, fs), calls1))))"

text \<open>
  The body of the \<^verbatim>\<open>try\<close>. \<open>fs\<close> are the files present when the operation starts; a
  normal return comes with the files present afterwards. The parameter \<^verbatim>\<open>mystic\<close> is
  never used and is left out; \<open>video_flag\<close> is the parameter \<^verbatim>\<open>video\<close>.
\<close>

definition download_body ::
  "env \<Rightarrow> files \<Rightarrow> string \<Rightarrow> pyval \<Rightarrow> pyval \<Rightarrow> pyval \<Rightarrow> pyval \<Rightarrow> pyval \<Rightarrow> pyval
     \<Rightarrow> (exn + download_result \<times> files) \<times> call list" where
  "download_body env fs0 link0 video_flag videoid songaudio songvideo format_id title =
     (let link = normalize_link base_url videoid link0
      in case makedirs env ''downloads'' fs0 of
           Inl e \<Rightarrow> (Inl e, [Throttle, MakeDirs ''downloads''])
         | Inr fs \<Rightarrow>
             if truthy songvideo then
               snippet_download env (get_ydl_opts env False format_id)
                 (''downloads/'' @ py_str (py_repr env) title @ ''.mp4'')
                 link fs [Throttle, MakeDirs ''downloads'']
             else if truthy songaudio then
               snippet_download env (get_ydl_opts env True format_id)
                 (''downloads/'' @ py_str (py_repr env) title @ ''.mp3'')
                 link fs [Throttle, MakeDirs ''downloads'']
             else if truthy video_flag then
               full_video_download env link fs [Throttle, MakeDirs ''downloads'']
             else
               default_audio_download env link fs [Throttle, MakeDirs ''downloads''])"

text \<open>The handler: \<^verbatim>\<open>raise Exception(f"Download failed: {str(e)}")\<close>.\<close>

definition download ::
  "env \<Rightarrow> files \<Rightarrow> string \<Rightarrow> pyval \<Rightarrow> pyval \<Rightarrow> pyval \<Rightarrow> pyval \<Rightarrow> pyval \<Rightarrow> pyval
     \<Rightarrow> (exn + download_result \<times> files) \<times> call list" where
  "download env fs link video_flag videoid songaudio songvideo format_id title =
     (case download_body env fs link video_flag videoid songaudio songvideo format_id title of
        (Inl e, calls) \<Rightarrow>
          (Inl (Exn PlainException (''Download failed: '' @ exn_str e)), calls)
      | (Inr r, calls) \<Rightarrow> (Inr r, calls))"

section \<open>\<^verbatim>\<open>url_regex\<close> and \<^verbatim>\<open>exists\<close>\<close>

text \<open>
  The pattern of \<^verbatim>\<open>__init__\<close> is built from single characters, the dot (any character
  but a newline), a negated class, concatenation, alternation, \<^verbatim>\<open>?\<close>, \<^verbatim>\<open>+\<close> on the dot
  and \<^verbatim>\<open>{11}\<close> on the class. Groups only capture and are not kept.
\<close>

datatype cset =
    Only char
  | Dot
  | NoneOf "char list"

fun in_cset :: "char \<Rightarrow> cset \<Rightarrow> bool" where
  "in_cset x (Only c) = (x = c)"
| "in_cset x Dot = (x \<noteq> CHR 0x0A)"
| "in_cset x (NoneOf cs) = (x \<notin> set cs)"

datatype regex =
    Eps
  | Sym cset
  | Cat regex regex
  | Alt regex regex
  | Opt regex
  | Plus cset
  | Times cset nat




text \<open>
  The backtracking matcher of \<^verbatim>\<open>re\<close>: \<open>rests r s\<close> lists what is left of \<open>s\<close> after each
  way of matching \<open>r\<close> at its start, in the order in which the ways are tried (greedy
  operators take the longer match first).
\<close>

fun star_rests :: "cset \<Rightarrow> string \<Rightarrow> string list" where
  "star_rests cs [] = [[]]"
| "star_rests cs (c # t) = (if in_cset c cs then star_rests cs t @ [c # t] else [c # t])"

fun rests :: "regex \<Rightarrow> string \<Rightarrow> string list" where
  "rests Eps s = [s]"
| "rests (Sym cs) s = (case s of [] \<Rightarrow> [] | c # t \<Rightarrow> if in_cset c cs then [t] else [])"
| "rests (Cat a b) s = concat (map (rests b) (rests a s))"
| "rests (Alt a b) s = rests a s @ rests b s"
| "rests (Opt a) s = rests a s @ [s]"
| "rests (Plus cs) s =
     (case s of [] \<Rightarrow> [] | c # t \<Rightarrow> if in_cset c cs then star_rests cs t else [])"
| "rests (Times cs n) s =
     (if n \<le> length s \<and> list_all (\<lambda>c. in_cset c cs) (take n s) then [drop n s] else [])"

text \<open>\<^verbatim>\<open>bool(re.search(r, s))\<close>: a match starting at some position of \<open>s\<close>.\<close>

fun search :: "regex \<Rightarrow> string \<Rightarrow> bool" where
  "search r [] = (rests r [] \<noteq> [])"
| "search r (c # t) = (rests r (c # t) \<noteq> [] \<or> search r t)"






section \<open>Notions used in the statements\<close>

text \<open>
  A populated VideoRef: a dictionary with exactly the six keys of the dictionaries that
  \<^verbatim>\<open>details\<close> builds.
\<close>

definition video_ref_keys :: "string list" where
  "video_ref_keys = [''title'', ''duration'', ''duration_sec'', ''thumbnail'', ''id'', ''url'']"

fun is_video_ref :: "pyval \<Rightarrow> bool" where
  "is_video_ref (PDict kvs) = (map fst kvs = video_ref_keys)"
| "is_video_ref v = False"

text \<open>
  The link or query that a call hands to a resolver (search index, extractor, mirror);
  \<open>None\<close> for a call that contacts no resolver.
\<close>

fun call_link :: "call \<Rightarrow> string option" where
  "call_link (VideosSearch l) = Some l"
| "call_link (ExtractInfo opts l) = Some l"
| "call_link (SearchMirror base q) = Some q"
| "call_link (YdlDownload opts l) = Some l"
| "call_link c = None"

text \<open>The links and queries that a run of calls hands to resolvers, in order.\<close>

fun resolver_links :: "call list \<Rightarrow> string list" where
  "resolver_links [] = []"
| "resolver_links (c # cs) =
     (case call_link c of Some l \<Rightarrow> l # resolver_links cs | None \<Rightarrow> resolver_links cs)"

text \<open>A link up to its first \<^verbatim>\<open>&\<close>.\<close>

definition before_amp :: "string \<Rightarrow> string" where
  "before_amp s = takeWhile (\<lambda>c. c \<noteq> CHR ''&'') s"

text \<open>The calls that fetch media over the network.\<close>

fun is_download :: "call \<Rightarrow> bool" where
  "is_download (YdlDownload opts l) = True"
| "is_download c = False"

text \<open>What one mirror contributes: its dictionary, or nothing.\<close>

definition mirror_answer :: "env \<Rightarrow> string \<Rightarrow> string \<Rightarrow> pyval option" where
  "mirror_answer env base query =
     (case try_mirror env base query of Inr (Some d) \<Rightarrow> Some d | _ \<Rightarrow> None)"

text \<open>The value of a key of a dictionary literal, or a default.\<close>

definition field :: "(string \<times> pyval) list \<Rightarrow> string \<Rightarrow> pyval \<Rightarrow> pyval" where
  "field kvs k dflt = (case map_of kvs k of Some v \<Rightarrow> v | None \<Rightarrow> dflt)"

text \<open>An entry of a mirror's answer that is a dictionary of another type than video.\<close>

fun other_entry :: "pyval \<Rightarrow> bool" where
  "other_entry (PDict kvs) = (map_of kvs ''type'' \<noteq> Some (PStr ''video''))"
| "other_entry v = False"





section \<open>Example environments\<close>

text \<open>Every service is down; the file system works.\<close>

definition offline_env :: env where
  "offline_env =
     \<lparr>search_next = (\<lambda>l. Inl (Exn LibraryError ''search unavailable'')),
      extract_info = (\<lambda>opts l. Inl (Exn LibraryError ''HTTP Error 429'')),
      session_get = (\<lambda>u. RequestFailed (Exn LibraryError ''timeout'')),
      quote = (\<lambda>s. s),
      random_choice = (\<lambda>xs. case xs of [] \<Rightarrow> [] | x # _ \<Rightarrow> x),
      py_repr = (\<lambda>v. ''[...]''),
      prepare_filename = (\<lambda>opts info. Inl (Exn TypeError ''no info'')),
      ydl_download = (\<lambda>opts l fs. Inl (Exn LibraryError ''HTTP Error 429'')),
      makedirs = (\<lambda>d fs. Inr fs),
      os_rename = (\<lambda>a b fs. Inr (insert b (fs - {a}))),
      splitext = (\<lambda>p. (p, ''''))\<rparr>"

text \<open>An answer of a mirror: a channel, then a video.\<close>

definition mirror_json :: pyval where
  "mirror_json =
     PList [PDict [(''type'', PStr ''channel''), (''author'', PStr ''Rick Astley'')],
            PDict [(''type'', PStr ''video''),
                   (''title'', PStr ''Never Gonna Give You Up''),
                   (''videoId'', PStr ''dQw4w9WgXcQ''),
                   (''lengthSeconds'', PInt 213)]]"

text \<open>
  The search index and the extractor are down (the extractor with a plain network
  error), the first mirror times out and the second one answers.
\<close>

definition mirror_only_env :: env where
  "mirror_only_env =
     offline_env
       \<lparr>session_get := (\<lambda>u.
          if starts_with ''https://inv.odyssey346.dev/'' u
          then Response 200 (Inr mirror_json)
          else RequestFailed (Exn LibraryError ''timeout''))\<rparr>"

text \<open>The same, but the extractor reports the sign-in wall.\<close>

definition sign_in_env :: env where
  "sign_in_env =
     mirror_only_env
       \<lparr>extract_info := (\<lambda>opts l.
          Inl (Exn ExtractorError ''Sign in to confirm your age''))\<rparr>"

text \<open>
  The search index answers with one well-formed result whose duration is \<^verbatim>\<open>"3:33"\<close>;
  the extractor is down.
\<close>

definition search_page :: pyval where
  "search_page =
     PDict [(''result'',
       PList [PDict [(''title'', PStr ''Never Gonna Give You Up''),
                     (''duration'', PStr ''3:33''),
                     (''thumbnails'',
                        PList [PDict [(''url'',
                          PStr ''https://i.ytimg.com/vi/dQw4w9WgXcQ/hq720.jpg?sqp=x'')]]),
                     (''id'', PStr ''dQw4w9WgXcQ''),
                     (''link'', PStr ''https://www.youtube.com/watch?v=dQw4w9WgXcQ'')]])]"

definition search_only_env :: env where
  "search_only_env = offline_env \<lparr>search_next := (\<lambda>l. Inr search_page)\<rparr>"

text \<open>
  The extractor works: a playlist of three entries, the second without an ID, and file
  names by ID; downloading creates the file named by the output template of a snippet
  or the raw \<^verbatim>\<open>.webm\<close> file.
\<close>

definition playlist_info :: pyval where
  "playlist_info =
     PDict [(''id'', PStr ''PL123''),
            (''entries'',
               PList [PDict [(''id'', PStr ''aaaaaaaaaaa'')],
                      PDict [(''title'', PStr ''[Deleted video]'')],
                      PDict [(''id'', PStr ''ccccccccccc'')]])]"

definition extractor_env :: env where
  "extractor_env =
     offline_env
       \<lparr>extract_info := (\<lambda>opts l.
          if map_of opts ''playlistend'' = None
          then Inr (PDict [(''id'', PStr ''dQw4w9WgXcQ''), (''ext'', PStr ''webm'')])
          else if map_of opts ''playlistend'' = Some (PInt 3) then Inr playlist_info
          else Inl (Exn LibraryError ''HTTP Error 429'')),
        prepare_filename := (\<lambda>opts info. Inr ''downloads/dQw4w9WgXcQ.webm''),
        ydl_download := (\<lambda>opts l fs.
          Inr (insert (case map_of opts ''outtmpl'' of
                         Some (PStr t) \<Rightarrow>
                           if t = ''downloads/%(id)s.%(ext)s''
                           then ''downloads/dQw4w9WgXcQ.webm'' else t
                       | _ \<Rightarrow> ''downloads/dQw4w9WgXcQ.webm'') fs)),
        splitext := (\<lambda>p. (take (length p - 5) p, drop (length p - 5) p))\<rparr>"


section \<open>Basic facts\<close>

lemma and_then_InrE:
  assumes "and_then m f = Inr y"
  obtains x where "m = Inr x" and "f x = Inr y"
  using assms by (cases m) (simp_all add: and_then_def)

lemma and_then_Inr [simp]: "and_then (Inr x) f = f x"
  by (simp add: and_then_def)

lemma and_then_Inl [simp]: "and_then (Inl e) f = Inl e"
  by (simp add: and_then_def)

text \<open>The definitions that evaluating an operation unfolds.\<close>

lemmas details_defs =
  details_def details_body_def primary_lookup_def secondary_extract_def from_fallback_def
  get_from_invidious_def invidious_instances_def try_mirror_def mirror_entry_def
  normalize_link_def base_url_def get_ydl_opts_def user_agents_def quoted_def Let_def

lemmas download_defs =
  download_def download_body_def snippet_download_def full_video_download_def
  default_audio_download_def normalize_link_def base_url_def get_ydl_opts_def
  user_agents_def Let_def

lemmas video_defs =
  video_def video_body_def normalize_link_def base_url_def get_ydl_opts_def user_agents_def Let_def

lemmas playlist_defs =
  playlist_def playlist_body_def playlist_opts_def normalize_link_def playlist_base_def Let_def

section \<open>The handlers of the outer \<^verbatim>\<open>try\<close> blocks\<close>

lemma details_cases:
  obtains (caught) e where "fst (details_body env link videoid) = Inl e"
      and "fst (details env link videoid) = Inr (PNone, ''Failed to process query: '' @ exn_str e)"
  | (returned) r where "fst (details_body env link videoid) = Inr r"
      and "fst (details env link videoid) = Inr r"
proof (cases "details_body env link videoid")
  case (Pair res calls)
  then show ?thesis
    by (cases res) (auto simp: details_def intro: caught returned)
qed

lemma video_cases:
  obtains (caught) e where "fst (video_body env link videoid) = Inl e"
      and "fst (video env link videoid) = Inr (PNone, ''Error getting stream URL: '' @ exn_str e)"
  | (returned) r where "fst (video_body env link videoid) = Inr r"
      and "fst (video env link videoid) = Inr r"
proof (cases "video_body env link videoid")
  case (Pair res calls)
  then show ?thesis
    by (cases res) (auto simp: video_def intro: caught returned)
qed

lemma playlist_cases:
  obtains (caught) e where "fst (playlist_body env link limit user_id videoid) = Inl e"
      and "fst (playlist env link limit user_id videoid) = Inr []"
  | (returned) r where "fst (playlist_body env link limit user_id videoid) = Inr r"
      and "fst (playlist env link limit user_id videoid) = Inr r"
proof (cases "playlist_body env link limit user_id videoid")
  case (Pair res calls)
  then show ?thesis
    by (cases res) (auto simp: playlist_def intro: caught returned)
qed

lemma download_cases:
  obtains (raised) e where
        "fst (download_body env fs link video_flag videoid songaudio songvideo format_id title)
           = Inl e"
      and "fst (download env fs link video_flag videoid songaudio songvideo format_id title)
           = Inl (Exn PlainException (''Download failed: '' @ exn_str e))"
  | (returned) r where
        "fst (download_body env fs link video_flag videoid songaudio songvideo format_id title)
           = Inr r"
      and "fst (download env fs link video_flag videoid songaudio songvideo format_id title)
           = Inr r"
proof (cases "download_body env fs link video_flag videoid songaudio songvideo format_id title")
  case (Pair res calls)
  then show ?thesis
    by (cases res) (auto simp: download_def intro: raised returned)
qed

lemma download_snd:
  "snd (download env fs link video_flag videoid songaudio songvideo format_id title)
     = snd (download_body env fs link video_flag videoid songaudio songvideo format_id title)"
  by (simp add: download_def split: prod.splits sum.splits)

lemma download_fst:
  "fst (download_body env fs link video_flag videoid songaudio songvideo format_id title) = Inr r
   \<Longrightarrow> fst (download env fs link video_flag videoid songaudio songvideo format_id title) = Inr r"
  by (cases rule: download_cases
        [of env fs link video_flag videoid songaudio songvideo format_id title]) simp_all

section \<open>The shape of what \<^verbatim>\<open>details\<close> returns\<close>

lemma primary_lookup_ref: "primary_lookup env link = Inr (Some d) \<Longrightarrow> is_video_ref d"
  unfolding primary_lookup_def
  apply (elim and_then_InrE)
  subgoal for page rs items
    by (cases items) (auto elim!: and_then_InrE simp: video_ref_keys_def split: if_splits)
  done

lemma secondary_extract_ref: "secondary_extract env link = Inr d \<Longrightarrow> is_video_ref d"
  unfolding secondary_extract_def
  by (auto elim!: and_then_InrE simp: video_ref_keys_def split: if_splits)

lemma from_fallback_ref: "from_fallback fb = Inr d \<Longrightarrow> is_video_ref d"
  unfolding from_fallback_def
  by (auto elim!: and_then_InrE simp: video_ref_keys_def)

lemma details_body_shape:
  assumes "fst (details_body env link videoid) = Inr (d, err)"
  shows "(is_video_ref d \<and> err = []) \<or> (d = PNone \<and> err \<noteq> [])"
  using assms unfolding details_body_def Let_def
  by (auto split: sum.splits option.splits if_splits prod.splits
      elim!: and_then_InrE dest: primary_lookup_ref secondary_extract_ref from_fallback_ref)

text \<open>
  C2. Whatever the link, the flag and the collaborators, \<^verbatim>\<open>details\<close> returns a pair that
  is either a populated VideoRef with the empty error string, or \<^verbatim>\<open>None\<close> with a
  non-empty error message. Since \<^verbatim>\<open>None\<close> is no VideoRef, the two cases exclude each
  other: there is neither a result with a message nor \<^verbatim>\<open>None\<close> without one.
\<close>

theorem details_result_exclusive:
  "\<exists>d err. fst (details env link videoid) = Inr (d, err) \<and>
     ((is_video_ref d \<and> err = '''') \<or> (d = PNone \<and> err \<noteq> ''''))"
proof (cases rule: details_cases [of env link videoid])
  case (caught e)
  then show ?thesis by simp
next
  case (returned r)
  obtain d err where r: "r = (d, err)" by (cases r)
  from returned r details_body_shape [of env link videoid d err] show ?thesis
    by auto
qed

text \<open>
  An extraction that fails with a network error gives \<^verbatim>\<open>None\<close> and a message; one that
  fails at the sign-in wall, with a mirror that answers, gives a VideoRef and no message.
\<close>

theorem details_result_exclusive_witness:
  "fst (details mirror_only_env ''dQw4w9WgXcQ'' (PBool True))
     = Inr (PNone, ''Error: HTTP Error 429'')
   \<and> fst (details sign_in_env ''dQw4w9WgXcQ'' (PBool True)) =
       Inr (PDict [(''title'', PStr ''Never Gonna Give You Up''),
                   (''duration'', PInt 213),
                   (''duration_sec'', PInt 213),
                   (''thumbnail'', PStr ''https://i.ytimg.com/vi/dQw4w9WgXcQ/hqdefault.jpg''),
                   (''id'', PStr ''dQw4w9WgXcQ''),
                   (''url'', PStr ''https://www.youtube.com/watch?v=dQw4w9WgXcQ'')], '''')"
proof -
  show ?thesis
    using details_result_exclusive [of mirror_only_env "''dQw4w9WgXcQ''" "PBool True"]
      details_result_exclusive [of sign_in_env "''dQw4w9WgXcQ''" "PBool True"]
    by (simp add: details_defs offline_env_def mirror_only_env_def sign_in_env_def mirror_json_def)
qed

section \<open>Which operations raise\<close>

text \<open>
  C3. The read-path operations \<^verbatim>\<open>details\<close>, \<^verbatim>\<open>video\<close> and \<^verbatim>\<open>playlist\<close> return a value
  whatever the collaborators do: an exception inside their body becomes the pair of
  \<^verbatim>\<open>None\<close> and a message, or the empty list. \<^verbatim>\<open>download\<close> returns only if its body
  returns; an exception \<open>e\<close> inside its body leaves the operation as
  \<^verbatim>\<open>Exception("Download failed: " + str(e))\<close>, and \<^verbatim>\<open>download\<close> raises nothing else.
\<close>

theorem read_path_returns_download_raises:
  "(\<exists>r. fst (details env link videoid) = Inr r) \<and>
   (\<exists>r. fst (video env link videoid) = Inr r) \<and>
   (\<exists>ids. fst (playlist env link limit user_id videoid) = Inr ids) \<and>
   (\<forall>e. fst (details_body env link videoid) = Inl e \<longrightarrow>
        fst (details env link videoid) = Inr (PNone, ''Failed to process query: '' @ exn_str e)) \<and>
   (\<forall>e. fst (video_body env link videoid) = Inl e \<longrightarrow>
        fst (video env link videoid) = Inr (PNone, ''Error getting stream URL: '' @ exn_str e)) \<and>
   (\<forall>e. fst (playlist_body env link limit user_id videoid) = Inl e \<longrightarrow>
        fst (playlist env link limit user_id videoid) = Inr []) \<and>
   (\<forall>e. fst (download_body env fs link video_flag videoid songaudio songvideo format_id title)
          = Inl e \<longrightarrow>
        fst (download env fs link video_flag videoid songaudio songvideo format_id title)
          = Inl (Exn PlainException (''Download failed: '' @ exn_str e))) \<and>
   (\<forall>x. fst (download env fs link video_flag videoid songaudio songvideo format_id title)
          = Inl x \<longrightarrow>
        (\<exists>e. fst (download_body env fs link video_flag videoid songaudio songvideo format_id
                    title) = Inl e \<and>
             x = Exn PlainException (''Download failed: '' @ exn_str e)))"
proof (intro conjI allI impI)
  show "\<exists>r. fst (details env link videoid) = Inr r"
    by (cases rule: details_cases [of env link videoid]) simp_all
  show "\<exists>r. fst (video env link videoid) = Inr r"
    by (cases rule: video_cases [of env link videoid]) simp_all
  show "\<exists>ids. fst (playlist env link limit user_id videoid) = Inr ids"
    by (cases rule: playlist_cases [of env link limit user_id videoid]) simp_all
  show "fst (details env link videoid) = Inr (PNone, ''Failed to process query: '' @ exn_str e)"
    if "fst (details_body env link videoid) = Inl e" for e
    using that by (cases rule: details_cases [of env link videoid]) simp_all
  show "fst (video env link videoid) = Inr (PNone, ''Error getting stream URL: '' @ exn_str e)"
    if "fst (video_body env link videoid) = Inl e" for e
    using that by (cases rule: video_cases [of env link videoid]) simp_all
  show "fst (playlist env link limit user_id videoid) = Inr []"
    if "fst (playlist_body env link limit user_id videoid) = Inl e" for e
    using that by (cases rule: playlist_cases [of env link limit user_id videoid]) simp_all
  show "fst (download env fs link video_flag videoid songaudio songvideo format_id title)
          = Inl (Exn PlainException (''Download failed: '' @ exn_str e))"
    if "fst (download_body env fs link video_flag videoid songaudio songvideo format_id title)
          = Inl e" for e
    using that
    by (cases rule: download_cases
          [of env fs link video_flag videoid songaudio songvideo format_id title]) simp_all
  show "\<exists>e. fst (download_body env fs link video_flag videoid songaudio songvideo format_id
                 title) = Inl e \<and>
            x = Exn PlainException (''Download failed: '' @ exn_str e)"
    if "fst (download env fs link video_flag videoid songaudio songvideo format_id title)
          = Inl x" for x
    using that
    by (cases rule: download_cases
          [of env fs link video_flag videoid songaudio songvideo format_id title]) simp_all
qed

text \<open>
  With every service down: \<^verbatim>\<open>video\<close> and \<^verbatim>\<open>playlist\<close> return their error values, and
  \<^verbatim>\<open>download\<close> raises.
\<close>


text \<open>
  With every service down: \<^verbatim>\<open>video\<close> and \<^verbatim>\<open>playlist\<close> return their error values, and
  \<^verbatim>\<open>download\<close> raises.
\<close>

theorem read_path_returns_download_raises_witness:
  "fst (video offline_env ''dQw4w9WgXcQ'' (PBool True))
     = Inr (PNone, ''Error getting stream URL: HTTP Error 429'') \<and>
   fst (playlist offline_env ''dQw4w9WgXcQ'' 10 0 (PBool True)) = Inr [] \<and>
   fst (download offline_env {} ''dQw4w9WgXcQ'' PNone (PBool True) PNone PNone PNone PNone)
     = Inl (Exn PlainException ''Download failed: HTTP Error 429'')"
proof -
  have v: "fst (video_body offline_env ''dQw4w9WgXcQ'' (PBool True))
             = Inl (Exn LibraryError ''HTTP Error 429'')"
    by (simp add: video_defs offline_env_def)
  have p: "fst (playlist_body offline_env ''dQw4w9WgXcQ'' 10 0 (PBool True))
             = Inl (Exn LibraryError ''HTTP Error 429'')"
    by (simp add: playlist_defs offline_env_def)
  have d: "fst (download_body offline_env {} ''dQw4w9WgXcQ'' PNone (PBool True) PNone PNone
                  PNone PNone) = Inl (Exn LibraryError ''HTTP Error 429'')"
    by (simp add: download_defs offline_env_def)
  note policy =
    read_path_returns_download_raises
      [of offline_env "''dQw4w9WgXcQ''" "PBool True" 10 0 "{}" PNone PNone PNone PNone PNone]
  note tail = policy [THEN conjunct2, THEN conjunct2, THEN conjunct2, THEN conjunct2]
  have "fst (video offline_env ''dQw4w9WgXcQ'' (PBool True))
          = Inr (PNone, ''Error getting stream URL: '' @ exn_str (Exn LibraryError ''HTTP Error 429''))"
    by (rule tail [THEN conjunct1, rule_format, OF v])
  moreover have "fst (playlist offline_env ''dQw4w9WgXcQ'' 10 0 (PBool True)) = Inr []"
    by (rule tail [THEN conjunct2, THEN conjunct1, rule_format, OF p])
  moreover have
    "fst (download offline_env {} ''dQw4w9WgXcQ'' PNone (PBool True) PNone PNone PNone PNone)
       = Inl (Exn PlainException
               (''Download failed: '' @ exn_str (Exn LibraryError ''HTTP Error 429'')))"
    by (rule tail [THEN conjunct2, THEN conjunct2, THEN conjunct1, rule_format, OF d])
  ultimately show ?thesis by simp
qed

section \<open>The proxy tier of \<^verbatim>\<open>details\<close>\<close>







section \<open>The duration in the primary lookup\<close>

lemma primary_lookup_duration:
  assumes "primary_lookup env link = Inr (Some (PDict kvs))"
  shows "map_of kvs ''duration_sec'' = Some (PInt 0)"
  using assms unfolding primary_lookup_def
  apply (elim and_then_InrE)
  subgoal for page rs items
    by (cases items) (auto elim!: and_then_InrE split: if_splits)
  done

text \<open>
  C4. The search index answers with one well-formed result whose duration is
  \<^verbatim>\<open>"3:33"\<close>. Evaluating \<^verbatim>\<open>time_to_seconds\<close>, a name that the module neither defines
  nor imports, raises \<^verbatim>\<open>NameError\<close>; the handler of the first \<^verbatim>\<open>try\<close> swallows it, the
  result of the search index is dropped, and \<^verbatim>\<open>details\<close> goes on to the extractor,
  which is down here. No VideoRef with \<^verbatim>\<open>duration_sec = 213\<close> is returned.
\<close>

theorem details_duration_name_error:
  "primary_lookup search_only_env ''https://www.youtube.com/watch?v=dQw4w9WgXcQ''
     = Inl (Exn NameError (''name '' @ quoted ''time_to_seconds'' @ '' is not defined'')) \<and>
   details search_only_env ''dQw4w9WgXcQ'' (PBool True) =
     (Inr (PNone, ''Error: HTTP Error 429''),
      [Throttle,
       VideosSearch ''https://www.youtube.com/watch?v=dQw4w9WgXcQ'',
       ExtractInfo (get_ydl_opts search_only_env True PNone)
         ''https://www.youtube.com/watch?v=dQw4w9WgXcQ''])"
  by (simp add: details_defs offline_env_def search_only_env_def search_page_def)

section \<open>The link that reaches the resolvers\<close>

lemma split_on_head: "\<exists>t. split_on c s = takeWhile (\<lambda>x. x \<noteq> c) s # t"
  by (induction s) (auto split: list.splits)

lemma normalize_link_eq:
  "normalize_link base videoid link =
     before_amp (if truthy videoid then base @ link else link)"
proof -
  have "(case split_on CHR ''&'' s of [] \<Rightarrow> s | h # _ \<Rightarrow> h) = before_amp s" for s
    using split_on_head [of "CHR ''&''" s] by (auto simp: before_amp_def)
  moreover have "before_amp s = s" if "CHR ''&'' \<notin> set s" for s
    using that by (auto simp: before_amp_def takeWhile_eq_all_conv)
  ultimately show ?thesis
    by (simp add: normalize_link_def Let_def)
qed

lemma resolver_links_append:
  "resolver_links (xs @ ys) = resolver_links xs @ resolver_links ys"
  by (induction xs) (auto split: option.splits)

lemma mirror_loop_links:
  "set (resolver_links (snd (mirror_loop env query bases))) \<subseteq> {query}"
  by (induction bases) (auto split: sum.splits option.splits prod.splits)

lemma details_links:
  "set (resolver_links (snd (details env link videoid)))
     \<subseteq> {normalize_link base_url videoid link}"
proof -
  have "set (resolver_links (snd (details_body env link videoid)))
          \<subseteq> {normalize_link base_url videoid link}"
    using mirror_loop_links [of env "normalize_link base_url videoid link" invidious_instances]
    by (auto simp: details_body_def Let_def get_from_invidious_def resolver_links_append
             split: sum.splits option.splits prod.splits if_splits)
  moreover have "snd (details env link videoid) = snd (details_body env link videoid)"
    by (auto simp: details_def split: prod.splits sum.splits)
  ultimately show ?thesis by simp
qed

lemma video_links:
  "resolver_links (snd (video env link videoid)) = [normalize_link base_url videoid link]"
  by (auto simp: video_def video_body_def Let_def split: prod.splits sum.splits)

lemma playlist_links:
  "resolver_links (snd (playlist env link limit user_id videoid))
     = [normalize_link playlist_base videoid link]"
  by (auto simp: playlist_def playlist_body_def Let_def split: prod.splits sum.splits)

lemma snippet_download_links:
  "set (resolver_links (snd (snippet_download env opts out link fs calls)))
     = set (resolver_links calls) \<union> {link}"
  by (simp add: snippet_download_def Let_def resolver_links_append split: sum.splits)

lemma full_video_download_links:
  "set (resolver_links (snd (full_video_download env link fs calls)))
     = set (resolver_links calls) \<union> {link}"
  by (simp add: full_video_download_def Let_def resolver_links_append split: sum.splits)

lemma default_audio_download_links:
  "set (resolver_links (snd (default_audio_download env link fs calls)))
     = set (resolver_links calls) \<union> {link}"
  by (simp add: default_audio_download_def Let_def resolver_links_append split: sum.splits)

lemma download_links:
  "set (resolver_links
         (snd (download env fs link video_flag videoid songaudio songvideo format_id title)))
     \<subseteq> {normalize_link base_url videoid link}"
  unfolding download_snd
  by (simp add: download_body_def Let_def snippet_download_links full_video_download_links
        default_audio_download_links split: sum.splits)

text \<open>
  C8, as amended. With the \<^verbatim>\<open>videoid\<close> flag set, every link or query that \<^verbatim>\<open>details\<close>,
  \<^verbatim>\<open>video\<close> and \<^verbatim>\<open>download\<close> hand to a resolver is \<^verbatim>\<open>base_url + id\<close> cut before its first
  \<^verbatim>\<open>&\<close>; for \<^verbatim>\<open>playlist\<close> it is \<^verbatim>\<open>playlist_base + id\<close> cut before its first \<^verbatim>\<open>&\<close>.
\<close>

theorem resolvers_get_normalized_link:
  assumes "truthy videoid"
  shows "set (resolver_links (snd (details env link videoid)))
           \<subseteq> {before_amp (base_url @ link)} \<and>
         resolver_links (snd (video env link videoid)) = [before_amp (base_url @ link)] \<and>
         set (resolver_links
               (snd (download env fs link video_flag videoid songaudio songvideo format_id
                       title)))
           \<subseteq> {before_amp (base_url @ link)} \<and>
         resolver_links (snd (playlist env link limit user_id videoid))
           = [before_amp (playlist_base @ link)]"
  using assms details_links [of env link videoid] video_links [of env link videoid]
    download_links [of env fs link video_flag videoid songaudio songvideo format_id title]
    playlist_links [of env link limit user_id videoid]
  by (simp add: normalize_link_eq)

theorem resolvers_get_normalized_link_witness:
  "resolver_links (snd (details sign_in_env ''dQw4w9WgXcQ&t=42'' (PBool True))) =
     [''https://www.youtube.com/watch?v=dQw4w9WgXcQ'',
      ''https://www.youtube.com/watch?v=dQw4w9WgXcQ'',
      ''https://www.youtube.com/watch?v=dQw4w9WgXcQ'',
      ''https://www.youtube.com/watch?v=dQw4w9WgXcQ''] \<and>
   resolver_links (snd (video sign_in_env ''dQw4w9WgXcQ&t=42'' (PBool True))) =
     [''https://www.youtube.com/watch?v=dQw4w9WgXcQ''] \<and>
   resolver_links (snd (playlist sign_in_env ''dQw4w9WgXcQ&t=42'' 10 0 (PBool True))) =
     [''https://youtube.com/playlist?list=dQw4w9WgXcQ'']"
proof -
  have t: "truthy (PBool True)" by simp
  have d: "resolver_links (snd (details sign_in_env ''dQw4w9WgXcQ&t=42'' (PBool True))) =
     [''https://www.youtube.com/watch?v=dQw4w9WgXcQ'',
      ''https://www.youtube.com/watch?v=dQw4w9WgXcQ'',
      ''https://www.youtube.com/watch?v=dQw4w9WgXcQ'',
      ''https://www.youtube.com/watch?v=dQw4w9WgXcQ'']"
    by (simp add: details_defs offline_env_def mirror_only_env_def sign_in_env_def mirror_json_def)
  have b: "before_amp (base_url @ ''dQw4w9WgXcQ&t=42'')
             = ''https://www.youtube.com/watch?v=dQw4w9WgXcQ''"
    by (simp add: before_amp_def base_url_def)
  have p: "before_amp (playlist_base @ ''dQw4w9WgXcQ&t=42'')
             = ''https://youtube.com/playlist?list=dQw4w9WgXcQ''"
    by (simp add: before_amp_def playlist_base_def)
  note r = resolvers_get_normalized_link
             [OF t, of sign_in_env "''dQw4w9WgXcQ&t=42''" "{}" PNone PNone PNone PNone PNone 10 0]
  from r [THEN conjunct2, THEN conjunct1] r [THEN conjunct2, THEN conjunct2, THEN conjunct2] d
  show ?thesis by (simp only: b p simp_thms)
qed

text \<open>
  C8 as stated fails for \<^verbatim>\<open>playlist\<close>: with the flag set it asks the extractor for
  \<^verbatim>\<open>playlist_base + id\<close>, not for \<^verbatim>\<open>base_url + id\<close>.
\<close>

theorem playlist_uses_playlist_base_counterexample:
  "snd (playlist offline_env ''PL123&index=2'' 10 0 (PBool True)) =
     [Throttle, ExtractInfo (playlist_opts 10) ''https://youtube.com/playlist?list=PL123''] \<and>
   before_amp (base_url @ ''PL123&index=2'') = ''https://www.youtube.com/watch?v=PL123'' \<and>
   resolver_links (snd (playlist offline_env ''PL123&index=2'' 10 0 (PBool True)))
     \<noteq> [before_amp (base_url @ ''PL123&index=2'')]"
  by (simp add: playlist_def playlist_body_def normalize_link_def playlist_base_def Let_def
        before_amp_def base_url_def offline_env_def)

section \<open>Files that are already there\<close>

lemma snippet_download_calls:
  "filter is_download (snd (snippet_download env opts out link fs calls))
     = filter is_download calls @ [YdlDownload (AList.update ''outtmpl'' (PStr out) opts) link]"
  by (simp add: snippet_download_def Let_def split: sum.splits)

text \<open>
  C5, as amended. In the modes full-video and default-audio, let the extractor resolve
  the file name \<open>path\<close> for the link; the expected output file is \<open>path\<close>, respectively
  \<open>path\<close> with its extension replaced by \<^verbatim>\<open>.mp3\<close>. If that file exists, \<^verbatim>\<open>download\<close>
  performs no network download, leaves the files as they are and returns the existing
  path with \<^verbatim>\<open>True\<close>. In the two snippet modes there is no such check: \<^verbatim>\<open>download\<close>
  always performs one network download.
\<close>

theorem download_skips_existing_file:
  "(\<not> truthy songvideo \<and> \<not> truthy songaudio \<and>
    makedirs env ''downloads'' fs0 = Inr fs \<and>
    opts = AList.update ''outtmpl'' (PStr ''downloads/%(id)s.%(ext)s'')
             (get_ydl_opts env (\<not> truthy video_flag) PNone) \<and>
    extract_info env opts (normalize_link base_url videoid link) = Inr info \<and>
    prepare_filename env opts info = Inr path \<and>
    expected = (if truthy video_flag then path else fst (splitext env path) @ ''.mp3'') \<and>
    expected \<in> fs
    \<longrightarrow>
    fst (download env fs0 link video_flag videoid songaudio songvideo format_id title)
      = Inr (PathFlag expected True, fs) \<and>
    filter is_download
      (snd (download env fs0 link video_flag videoid songaudio songvideo format_id title)) = [])
   \<and>
   ((truthy songvideo \<or> truthy songaudio) \<and> makedirs env ''downloads'' fs0 = Inr fs
    \<longrightarrow>
    length (filter is_download
      (snd (download env fs0 link video_flag videoid songaudio songvideo format_id title))) = 1)"
proof (intro conjI impI)
  assume a: "\<not> truthy songvideo \<and> \<not> truthy songaudio \<and>
    makedirs env ''downloads'' fs0 = Inr fs \<and>
    opts = AList.update ''outtmpl'' (PStr ''downloads/%(id)s.%(ext)s'')
             (get_ydl_opts env (\<not> truthy video_flag) PNone) \<and>
    extract_info env opts (normalize_link base_url videoid link) = Inr info \<and>
    prepare_filename env opts info = Inr path \<and>
    expected = (if truthy video_flag then path else fst (splitext env path) @ ''.mp3'') \<and>
    expected \<in> fs"
  then have body:
    "download_body env fs0 link video_flag videoid songaudio songvideo format_id title
       = (Inr (PathFlag expected True, fs),
          [Throttle, MakeDirs ''downloads'',
           ExtractInfo opts (normalize_link base_url videoid link), PathExists expected])"
    by (cases "truthy video_flag")
      (clarsimp simp: download_body_def full_video_download_def default_audio_download_def
         Let_def)+
  from body show
    "fst (download env fs0 link video_flag videoid songaudio songvideo format_id title)
       = Inr (PathFlag expected True, fs)"
    by (simp add: download_fst)
  from body show
    "filter is_download
      (snd (download env fs0 link video_flag videoid songaudio songvideo format_id title)) = []"
    by (simp add: download_snd)
next
  assume "(truthy songvideo \<or> truthy songaudio) \<and> makedirs env ''downloads'' fs0 = Inr fs"
  then show
    "length (filter is_download
      (snd (download env fs0 link video_flag videoid songaudio songvideo format_id title))) = 1"
    by (auto simp: download_snd download_body_def Let_def snippet_download_calls)
qed

text \<open>
  The raw file of the video exists (full-video mode), respectively its \<^verbatim>\<open>.mp3\<close> (default
  mode): nothing is downloaded.
\<close>

theorem download_skips_existing_file_witness:
  "download extractor_env {''downloads/dQw4w9WgXcQ.webm''} ''dQw4w9WgXcQ'' (PBool True)
     (PBool True) PNone PNone PNone PNone
   = (Inr (PathFlag ''downloads/dQw4w9WgXcQ.webm'' True, {''downloads/dQw4w9WgXcQ.webm''}),
      [Throttle, MakeDirs ''downloads'',
       ExtractInfo
         (AList.update ''outtmpl'' (PStr ''downloads/%(id)s.%(ext)s'')
            (get_ydl_opts extractor_env False PNone))
         ''https://www.youtube.com/watch?v=dQw4w9WgXcQ'',
       PathExists ''downloads/dQw4w9WgXcQ.webm'']) \<and>
   fst (download extractor_env {''downloads/dQw4w9WgXcQ.mp3''} ''dQw4w9WgXcQ'' PNone
     (PBool True) PNone PNone PNone PNone)
   = Inr (PathFlag ''downloads/dQw4w9WgXcQ.mp3'' True, {''downloads/dQw4w9WgXcQ.mp3''})"
proof -
  have 1: "download extractor_env {''downloads/dQw4w9WgXcQ.webm''} ''dQw4w9WgXcQ'' (PBool True)
     (PBool True) PNone PNone PNone PNone
   = (Inr (PathFlag ''downloads/dQw4w9WgXcQ.webm'' True, {''downloads/dQw4w9WgXcQ.webm''}),
      [Throttle, MakeDirs ''downloads'',
       ExtractInfo
         (AList.update ''outtmpl'' (PStr ''downloads/%(id)s.%(ext)s'')
            (get_ydl_opts extractor_env False PNone))
         ''https://www.youtube.com/watch?v=dQw4w9WgXcQ'',
       PathExists ''downloads/dQw4w9WgXcQ.webm''])"
    by (simp add: download_defs offline_env_def extractor_env_def playlist_info_def)
  have "fst (download extractor_env {''downloads/dQw4w9WgXcQ.mp3''} ''dQw4w9WgXcQ'' PNone
               (PBool True) PNone PNone PNone PNone)
           = Inr (PathFlag ''downloads/dQw4w9WgXcQ.mp3'' True, {''downloads/dQw4w9WgXcQ.mp3''}) \<and>
        filter is_download
          (snd (download extractor_env {''downloads/dQw4w9WgXcQ.mp3''} ''dQw4w9WgXcQ'' PNone
                  (PBool True) PNone PNone PNone PNone)) = []"
    by (rule download_skips_existing_file
         [of PNone PNone extractor_env "{''downloads/dQw4w9WgXcQ.mp3''}"
             "{''downloads/dQw4w9WgXcQ.mp3''}"
             "AList.update ''outtmpl'' (PStr ''downloads/%(id)s.%(ext)s'')
                (get_ydl_opts extractor_env (\<not> truthy PNone) PNone)"
             PNone "PBool True" "''dQw4w9WgXcQ''"
             "PDict [(''id'', PStr ''dQw4w9WgXcQ''), (''ext'', PStr ''webm'')]"
             "''downloads/dQw4w9WgXcQ.webm''" "''downloads/dQw4w9WgXcQ.mp3''" PNone PNone,
          THEN conjunct1, THEN mp])
       (simp add: offline_env_def extractor_env_def playlist_info_def get_ydl_opts_def)
  then have "fst (download extractor_env {''downloads/dQw4w9WgXcQ.mp3''} ''dQw4w9WgXcQ'' PNone
               (PBool True) PNone PNone PNone PNone)
           = Inr (PathFlag ''downloads/dQw4w9WgXcQ.mp3'' True, {''downloads/dQw4w9WgXcQ.mp3''})"
    by (rule conjunct1)
  with 1 show ?thesis by (rule conjI)
qed

text \<open>
  C5 as stated fails in the snippet modes: the file \<^verbatim>\<open>downloads/song.mp4\<close> exists, and
  \<^verbatim>\<open>download\<close> with \<^verbatim>\<open>songvideo\<close> set fetches it again.
\<close>

theorem download_snippet_refetches_counterexample:
  "download extractor_env {''downloads/song.mp4''} ''dQw4w9WgXcQ'' PNone (PBool True) PNone
     (PBool True) (PStr ''18'') (PStr ''song'')
   = (Inr (Path ''downloads/song.mp4'', {''downloads/song.mp4''}),
      [Throttle, MakeDirs ''downloads'',
       YdlDownload
         (AList.update ''outtmpl'' (PStr ''downloads/song.mp4'')
            (get_ydl_opts extractor_env False (PStr ''18'')))
         ''https://www.youtube.com/watch?v=dQw4w9WgXcQ''])"
  by (simp add: download_defs offline_env_def extractor_env_def playlist_info_def)

section \<open>The IDs of a playlist\<close>











section \<open>The proxy fallback client\<close>

lemma first_video_found:
  assumes "list_all other_entry before" and "map_of kvs ''type'' = Some (PStr ''video'')"
  shows "first_video (before @ PDict kvs # after) = Inr (PDict kvs)"
  using assms
proof (induction before)
  case Nil
  then show ?case by simp
next
  case (Cons e before)
  then obtain kvs' where "e = PDict kvs'" and "map_of kvs' ''type'' \<noteq> Some (PStr ''video'')"
    by (cases e) simp_all
  with Cons show ?case by (simp split: option.splits)
qed

lemma first_video_decomp:
  assumes "first_video items = Inr v" and "truthy v"
  shows "\<exists>before kvs after.
           items = before @ PDict kvs # after \<and> list_all other_entry before \<and>
           map_of kvs ''type'' = Some (PStr ''video'') \<and> v = PDict kvs"
  using assms
proof (induction items)
  case Nil
  then show ?case by simp
next
  case (Cons e items)
  from Cons.prems(1) obtain kvs where e: "e = PDict kvs"
    by (cases e) simp_all
  show ?case
  proof (cases "map_of kvs ''type'' = Some (PStr ''video'')")
    case True
    with Cons.prems e have "v = PDict kvs" by simp
    with True e have
      "e # items = [] @ PDict kvs # items \<and> list_all other_entry [] \<and>
       map_of kvs ''type'' = Some (PStr ''video'') \<and> v = PDict kvs"
      by simp
    then show ?thesis by blast
  next
    case False
    with Cons.prems e have "first_video items = Inr v"
      by (simp split: option.splits if_splits)
    with Cons.IH Cons.prems(2) obtain before kvs' after where
      d: "items = before @ PDict kvs' # after" "list_all other_entry before"
         "map_of kvs' ''type'' = Some (PStr ''video'')" "v = PDict kvs'"
      by blast
    with False e have
      "e # items = (e # before) @ PDict kvs' # after \<and> list_all other_entry (e # before) \<and>
       map_of kvs' ''type'' = Some (PStr ''video'') \<and> v = PDict kvs'"
      by simp
    then show ?thesis by blast
  qed
qed

lemma mirror_entry_dict:
  "mirror_entry env (PDict kvs) =
     Inr (PDict
       [(''id'', field kvs ''videoId'' PNone),
        (''title'', field kvs ''title'' (PStr ''Unknown Title'')),
        (''duration'', field kvs ''lengthSeconds'' (PInt 0)),
        (''thumbnail'',
           PStr (''https://i.ytimg.com/vi/'' @ py_str (py_repr env) (field kvs ''videoId'' PNone)
                  @ ''/hqdefault.jpg'')),
        (''url'', PStr (base_url @ py_str (py_repr env) (field kvs ''videoId'' PNone)))])"
  by (simp add: mirror_entry_def field_def split: option.splits)

lemma mirror_answer_SomeD:
  assumes "mirror_answer env base query = Some d"
  shows "\<exists>items before kvs after.
           session_get env (base @ ''/api/v1/search?q='' @ quote env query)
             = Response 200 (Inr (PList items)) \<and>
           items = before @ PDict kvs # after \<and> list_all other_entry before \<and>
           map_of kvs ''type'' = Some (PStr ''video'') \<and>
           mirror_entry env (PDict kvs) = Inr d"
proof -
  from assms have t: "try_mirror env base query = Inr (Some d)"
    by (auto simp: mirror_answer_def split: sum.splits option.splits)
  then obtain status body where
    r: "session_get env (base @ ''/api/v1/search?q='' @ quote env query) = Response status body"
    by (cases "session_get env (base @ ''/api/v1/search?q='' @ quote env query)")
       (simp_all add: try_mirror_def)
  with t have s: "status = 200"
    by (simp add: try_mirror_def split: if_splits)
  with t r obtain results where b: "body = Inr results"
    by (cases body) (simp_all add: try_mirror_def)
  with t r s obtain items where l: "results = PList items"
    by (cases results) (simp_all add: try_mirror_def)
  with t r s b obtain video where
    v: "first_video items = Inr video" "truthy video" "mirror_entry env video = Inr d"
    by (auto simp: try_mirror_def split: if_splits elim!: and_then_InrE)
  from first_video_decomp [OF v(1,2)] obtain before kvs after where
    "items = before @ PDict kvs # after" "list_all other_entry before"
    "map_of kvs ''type'' = Some (PStr ''video'')" "video = PDict kvs"
    by blast
  with r s b l v(3) show ?thesis by blast
qed

lemma mirror_answer_SomeI:
  assumes "session_get env (base @ ''/api/v1/search?q='' @ quote env query)
             = Response 200 (Inr (PList (before @ PDict kvs # after)))"
    and "list_all other_entry before"
    and "map_of kvs ''type'' = Some (PStr ''video'')"
  shows "mirror_answer env base query = Some (projr (mirror_entry env (PDict kvs)))"
proof -
  from assms(3) have "kvs \<noteq> []" by auto
  with assms first_video_found [OF assms(2,3), of after] show ?thesis
    by (simp add: mirror_answer_def try_mirror_def mirror_entry_dict)
qed

lemma mirror_loop_none:
  assumes "list_all (\<lambda>m. mirror_answer env m query = None) bases"
  shows "mirror_loop env query bases = (PNone, map (\<lambda>m. SearchMirror m query) bases)"
  using assms
  by (induction bases)
     (auto simp: mirror_answer_def split: sum.splits option.splits)

lemma mirror_loop_first:
  assumes "list_all (\<lambda>m. mirror_answer env m query = None) skipped"
    and "mirror_answer env b query = Some d"
  shows "mirror_loop env query (skipped @ b # rest)
           = (d, map (\<lambda>m. SearchMirror m query) (skipped @ [b]))"
  using assms
  by (induction skipped)
     (auto simp: mirror_answer_def split: sum.splits option.splits)

text \<open>
  C7. A mirror is usable exactly if its response has status 200 and a JSON list in
  which a dictionary of type \<^verbatim>\<open>video\<close> comes after dictionaries of other types only; its
  answer is then the mapping of that first video entry, with the thumbnail URL built
  from the ID by the fixed template. The client asks the mirrors of the fixed list in
  order, stops at the first usable one and returns its answer; the mirrors before it
  (failed request, other status, no JSON, no list, no video entry, a malformed entry
  before the first video) are skipped. If no mirror is usable, all of them have been
  asked and the result is \<^verbatim>\<open>None\<close>.
\<close>

theorem proxy_fallback_first_usable_mirror:
  "(mirror_answer env base query = Some d \<longleftrightarrow>
      (\<exists>items before kvs after.
         session_get env (base @ ''/api/v1/search?q='' @ quote env query)
           = Response 200 (Inr (PList items)) \<and>
         items = before @ PDict kvs # after \<and> list_all other_entry before \<and>
         map_of kvs ''type'' = Some (PStr ''video'') \<and>
         d = PDict
           [(''id'', field kvs ''videoId'' PNone),
            (''title'', field kvs ''title'' (PStr ''Unknown Title'')),
            (''duration'', field kvs ''lengthSeconds'' (PInt 0)),
            (''thumbnail'',
               PStr (''https://i.ytimg.com/vi/''
                      @ py_str (py_repr env) (field kvs ''videoId'' PNone)
                      @ ''/hqdefault.jpg'')),
            (''url'', PStr (base_url @ py_str (py_repr env) (field kvs ''videoId'' PNone)))]))
   \<and>
   (\<forall>skipped b rest r.
      invidious_instances = skipped @ b # rest \<and>
      list_all (\<lambda>m. mirror_answer env m query = None) skipped \<and>
      mirror_answer env b query = Some r \<longrightarrow>
      get_from_invidious env query = (r, map (\<lambda>m. SearchMirror m query) (skipped @ [b])))
   \<and>
   (list_all (\<lambda>m. mirror_answer env m query = None) invidious_instances \<longrightarrow>
      get_from_invidious env query
        = (PNone, map (\<lambda>m. SearchMirror m query) invidious_instances))"
proof (intro conjI allI impI iffI)
  assume "mirror_answer env base query = Some d"
  from mirror_answer_SomeD [OF this] show
    "\<exists>items before kvs after.
         session_get env (base @ ''/api/v1/search?q='' @ quote env query)
           = Response 200 (Inr (PList items)) \<and>
         items = before @ PDict kvs # after \<and> list_all other_entry before \<and>
         map_of kvs ''type'' = Some (PStr ''video'') \<and>
         d = PDict
           [(''id'', field kvs ''videoId'' PNone),
            (''title'', field kvs ''title'' (PStr ''Unknown Title'')),
            (''duration'', field kvs ''lengthSeconds'' (PInt 0)),
            (''thumbnail'',
               PStr (''https://i.ytimg.com/vi/''
                      @ py_str (py_repr env) (field kvs ''videoId'' PNone)
                      @ ''/hqdefault.jpg'')),
            (''url'', PStr (base_url @ py_str (py_repr env) (field kvs ''videoId'' PNone)))]"
    unfolding mirror_entry_dict by (elim exE conjE) (intro exI conjI, auto)
next
  assume "\<exists>items before kvs after.
         session_get env (base @ ''/api/v1/search?q='' @ quote env query)
           = Response 200 (Inr (PList items)) \<and>
         items = before @ PDict kvs # after \<and> list_all other_entry before \<and>
         map_of kvs ''type'' = Some (PStr ''video'') \<and>
         d = PDict
           [(''id'', field kvs ''videoId'' PNone),
            (''title'', field kvs ''title'' (PStr ''Unknown Title'')),
            (''duration'', field kvs ''lengthSeconds'' (PInt 0)),
            (''thumbnail'',
               PStr (''https://i.ytimg.com/vi/''
                      @ py_str (py_repr env) (field kvs ''videoId'' PNone)
                      @ ''/hqdefault.jpg'')),
            (''url'', PStr (base_url @ py_str (py_repr env) (field kvs ''videoId'' PNone)))]"
  then obtain items before kvs after where
    a: "session_get env (base @ ''/api/v1/search?q='' @ quote env query)
          = Response 200 (Inr (PList (before @ PDict kvs # after)))"
       "list_all other_entry before" "map_of kvs ''type'' = Some (PStr ''video'')"
    and d: "d = projr (mirror_entry env (PDict kvs))"
    unfolding mirror_entry_dict by auto
  from mirror_answer_SomeI [OF a] d show "mirror_answer env base query = Some d"
    by simp
next
  fix skipped b rest r
  assume "invidious_instances = skipped @ b # rest \<and>
      list_all (\<lambda>m. mirror_answer env m query = None) skipped \<and>
      mirror_answer env b query = Some r"
  then show
    "get_from_invidious env query = (r, map (\<lambda>m. SearchMirror m query) (skipped @ [b]))"
    using mirror_loop_first [of env query skipped b r rest]
    by (simp add: get_from_invidious_def)
next
  assume "list_all (\<lambda>m. mirror_answer env m query = None) invidious_instances"
  then show "get_from_invidious env query
        = (PNone, map (\<lambda>m. SearchMirror m query) invidious_instances)"
    by (simp add: get_from_invidious_def mirror_loop_none)
qed

text \<open>The first mirror times out, the second answers with a channel and a video.\<close>

theorem proxy_fallback_first_usable_mirror_witness:
  "get_from_invidious mirror_only_env ''never gonna give you up'' =
     (PDict [(''id'', PStr ''dQw4w9WgXcQ''),
             (''title'', PStr ''Never Gonna Give You Up''),
             (''duration'', PInt 213),
             (''thumbnail'', PStr ''https://i.ytimg.com/vi/dQw4w9WgXcQ/hqdefault.jpg''),
             (''url'', PStr ''https://www.youtube.com/watch?v=dQw4w9WgXcQ'')],
      [SearchMirror ''https://yewtu.be'' ''never gonna give you up'',
       SearchMirror ''https://inv.odyssey346.dev'' ''never gonna give you up''])"
proof -
  have i: "invidious_instances =
             [''https://yewtu.be''] @ ''https://inv.odyssey346.dev'' #
             [''https://invidious.flokinet.to'', ''https://vid.puffyan.us'',
              ''https://inv.tux.pizza'']"
    by (simp add: invidious_instances_def)
  have s: "list_all (\<lambda>m. mirror_answer mirror_only_env m ''never gonna give you up'' = None)
             [''https://yewtu.be'']"
    by (simp add: mirror_answer_def try_mirror_def offline_env_def mirror_only_env_def mirror_json_def)
  have a: "mirror_answer mirror_only_env ''https://inv.odyssey346.dev''
             ''never gonna give you up'' =
           Some (PDict [(''id'', PStr ''dQw4w9WgXcQ''),
             (''title'', PStr ''Never Gonna Give You Up''),
             (''duration'', PInt 213),
             (''thumbnail'', PStr ''https://i.ytimg.com/vi/dQw4w9WgXcQ/hqdefault.jpg''),
             (''url'', PStr ''https://www.youtube.com/watch?v=dQw4w9WgXcQ'')])"
    by (simp add: mirror_answer_def try_mirror_def mirror_entry_def base_url_def offline_env_def mirror_only_env_def mirror_json_def)
  from proxy_fallback_first_usable_mirror
         [of mirror_only_env "''x''" "''never gonna give you up''" PNone,
          THEN conjunct2, THEN conjunct1, rule_format, OF conjI [OF i conjI [OF s a]]]
  show ?thesis by simp
qed

section \<open>\<^verbatim>\<open>exists\<close> and the URL pattern\<close>
















end
